theory Spec2Isabelle
  imports Main
begin

section \<open>The checkout form component (src/components/orders/CheckoutForm.tsx)\<close>

text \<open>
  The component is a React function component with five \<^verbatim>\<open>useState\<close> cells, two
  handles obtained from hooks (\<^verbatim>\<open>useStripe\<close>, \<^verbatim>\<open>useElements\<close>), one effect that
  requests a payment intent, and two handlers (\<^verbatim>\<open>handleChange\<close>, \<^verbatim>\<open>handleSubmit\<close>).
  The embedding keeps the five cells as a record and every handler as a function on that
  record. The two asynchronous operations are split at their \<^verbatim>\<open>await\<close> / \<^verbatim>\<open>then\<close>:
  what runs before the suspension is one function, what runs when the promise resolves is
  another, and a session is a list of events applied in order.

  The prop \<^verbatim>\<open>numCourses\<close> is a TypeScript \<^verbatim>\<open>number\<close>, a double; the development
  treats the non-negative integers among its values, as a \<^typ>\<open>nat\<close>, and writes out
  the rounding of the one arithmetic operation the component performs on it.
\<close>

subsection \<open>Data\<close>

text \<open>Lines 22-26: the \<^verbatim>\<open>useState\<close> cells, in the order of the source.\<close>

record state =
  succeeded :: bool
  error :: "string option"
  processing :: bool
  disabled :: bool
  clientSecret :: string

text \<open>Initial values: \<^verbatim>\<open>false\<close>, \<^verbatim>\<open>null\<close>, \<^verbatim>\<open>false\<close>, \<^verbatim>\<open>true\<close>, \<^verbatim>\<open>""\<close>.\<close>

definition initial_state :: state where
  "initial_state =
     \<lparr>succeeded = False, error = None, processing = False, disabled = True,
      clientSecret = ''''\<rparr>"

text \<open>
  The objects of the payment library. A card element and the \<^verbatim>\<open>stripe\<close> handle are
  opaque; \<^verbatim>\<open>elements.getElement(CardElement)\<close> yields the mounted card element or
  \<^verbatim>\<open>null\<close>. An error object carries a \<^verbatim>\<open>message\<close>.
\<close>

datatype StripeCardElement = StripeCardElement nat

datatype Stripe = Stripe nat

datatype Elements = Elements (getElement: "StripeCardElement option")

datatype StripeError = StripeError (message: string)

text \<open>
  The argument of \<^verbatim>\<open>handleChange\<close>: the fields \<^verbatim>\<open>empty\<close> and \<^verbatim>\<open>error\<close> of a
  \<^verbatim>\<open>StripeCardElementChangeEvent\<close> (the only two that the handler reads).
\<close>

record StripeCardElementChangeEvent =
  empty_ev :: bool
  error_ev :: "StripeError option"

text \<open>The value that \<^verbatim>\<open>confirmCardPayment\<close> resolves to: \<^verbatim>\<open>payload.error\<close> is set or not.\<close>

datatype payload = Payload (payload_error: "StripeError option")

text \<open>
  One call \<^verbatim>\<open>stripe.confirmCardPayment(clientSecret, {payment_method: {card: c}})\<close>:
  the handle it is called on, the secret, and the card (the result of \<^verbatim>\<open>getElement\<close>,
  which the cast \<^verbatim>\<open>as StripeCardElement\<close> leaves as it is).
\<close>

record confirm_call =
  call_stripe :: Stripe
  call_secret :: string
  call_card :: "StripeCardElement option"

subsection \<open>The intent request (the effect, lines 30-50)\<close>

text \<open>JSON values, as far as the request body needs them.\<close>

datatype json =
    JString string
  | JNumber int
  | JArray "json list"
  | JObject "(string \<times> json) list"

text \<open>The argument of \<^verbatim>\<open>fetch\<close>: the address and the fields \<^verbatim>\<open>method\<close>, \<^verbatim>\<open>headers\<close>, \<^verbatim>\<open>body\<close>.\<close>

record request =
  url :: string
  http_method :: string
  headers :: "(string \<times> string) list"
  body :: json

datatype js_error = RangeError

text \<open>
  \<^verbatim>\<open>Array(numCourses).fill({ id: "course" })\<close>: the constructor accepts a length below
  \<open>2^32\<close> and throws a \<^verbatim>\<open>RangeError\<close> otherwise; \<^verbatim>\<open>fill\<close> puts the same object in
  every slot.
\<close>

definition Array_fill :: "nat \<Rightarrow> json \<Rightarrow> js_error + json list" where
  "Array_fill n v = (if n < 2 ^ 32 then Inr (replicate n v) else Inl RangeError)"

text \<open>The argument of \<^verbatim>\<open>fetch\<close>. When the array cannot be built nothing is sent.\<close>

definition create_payment_intent_request :: "nat \<Rightarrow> js_error + request" where
  "create_payment_intent_request numCourses =
     (case Array_fill numCourses (JObject [(''id'', JString ''course'')]) of
        Inl e \<Rightarrow> Inl e
      | Inr cs \<Rightarrow>
          Inr \<lparr>url = ''https://localhost:5001/payment/create-payment-intent'',
               http_method = ''POST'',
               headers = [(''Content-Type'', ''application/json'')],
               body = JObject [(''coursesToBuy'', JArray cs), (''price'', JNumber 2599)]\<rparr>)"

text \<open>Line 48, the last \<^verbatim>\<open>then\<close>: \<^verbatim>\<open>setClientSecret(data.clientSecret)\<close>.\<close>

definition setClientSecret :: "string \<Rightarrow> state \<Rightarrow> state" where
  "setClientSecret s st = st\<lparr>clientSecret := s\<rparr>"

subsection \<open>The handlers\<close>

text \<open>
  Lines 58-66: \<^verbatim>\<open>setDisabled(event.empty)\<close>, then
  \<^verbatim>\<open>setError(event.error ? event.error.message : "")\<close>.
\<close>

definition handleChange :: "StripeCardElementChangeEvent \<Rightarrow> state \<Rightarrow> state" where
  "handleChange event st =
     st\<lparr>disabled := empty_ev event,
        error := Some (case error_ev event of Some e \<Rightarrow> message e | None \<Rightarrow> '''')\<rparr>"

text \<open>
  Lines 74-84, \<^verbatim>\<open>handleSubmit\<close> up to its \<^verbatim>\<open>await\<close>: \<^verbatim>\<open>setProcessing(true)\<close> comes
  first; the call is made inside \<^verbatim>\<open>if (elements)\<close> and \<^verbatim>\<open>if (stripe)\<close>, with the
  \<^verbatim>\<open>clientSecret\<close> of the current render. The result is the new state and the call, if one
  was made.
\<close>

definition handleSubmit_call ::
  "Stripe option \<Rightarrow> Elements option \<Rightarrow> state \<Rightarrow> confirm_call option" where
  "handleSubmit_call stripe elements st =
     (case elements of
        None \<Rightarrow> None
      | Some els \<Rightarrow>
          (case stripe of
             None \<Rightarrow> None
           | Some s \<Rightarrow>
               Some \<lparr>call_stripe = s, call_secret = clientSecret st,
                     call_card = getElement els\<rparr>))"

definition handleSubmit_begin ::
  "Stripe option \<Rightarrow> Elements option \<Rightarrow> state \<Rightarrow> state \<times> confirm_call option" where
  "handleSubmit_begin stripe elements st =
     (st\<lparr>processing := True\<rparr>, handleSubmit_call stripe elements st)"

text \<open>
  Lines 86-96, the rest of \<^verbatim>\<open>handleSubmit\<close>, run when the awaited call resolves to
  \<^verbatim>\<open>payload\<close>. The message is the template \<^verbatim>\<open>`Payment failed ${payload.error.message}`\<close>.
\<close>

definition handleSubmit_resume :: "payload \<Rightarrow> state \<Rightarrow> state" where
  "handleSubmit_resume p st =
     (case payload_error p of
        Some e \<Rightarrow> st\<lparr>error := Some (''Payment failed '' @ message e), processing := False\<rparr>
      | None \<Rightarrow> st\<lparr>error := None, processing := False, succeeded := True\<rparr>)"

subsection \<open>Numbers\<close>

text \<open>
  The product \<^verbatim>\<open>numCourses * 20\<close> of line 186 is a multiplication of doubles: the exact
  product, rounded to the nearest double, ties to the even significand, and
  \<^verbatim>\<open>Infinity\<close> from \<open>2^1024 - 2^970\<close> on. A double has 53 significant bits, so a
  non-negative integer below \<open>2^53\<close> is a double, and a larger one of \<open>b\<close> bits is rounded
  to a multiple of \<open>2^(b - 53)\<close>.
\<close>

datatype number = Num nat | Infinity

fun bit_length :: "nat \<Rightarrow> nat" where
  "bit_length n = (if n = 0 then 0 else Suc (bit_length (n div 2)))"

declare bit_length.simps [simp del]

definition round_double :: "nat \<Rightarrow> number" where
  "round_double x =
     (if x < 2 ^ 53 then Num x
      else
        (let e = bit_length x - 53;
             q = x div 2 ^ e;
             r = x mod 2 ^ e;
             h = 2 ^ (e - 1);
             m = (if h < r \<or> (r = h \<and> odd q) then q + 1 else q)
         in if 2 ^ 1024 \<le> m * 2 ^ e then Infinity else Num (m * 2 ^ e)))"

text \<open>The operator \<^verbatim>\<open>*\<close> on two doubles that hold non-negative integers.\<close>

definition times_number :: "nat \<Rightarrow> nat \<Rightarrow> number" where
  "times_number a b = round_double (a * b)"

subsection \<open>What is rendered (lines 120-209)\<close>

datatype button_text = Spinner | Pay_now

text \<open>
  Line 146: \<^verbatim>\<open>disabled={processing || disabled || succeeded}\<close> on the submit button.
  The parts of the output that depend on the state or the prop: that attribute, the
  content of the button (lines 150-154), the alert (lines 158-166; \<^verbatim>\<open>error && ...\<close> renders it for a string that is neither
  \<^verbatim>\<open>null\<close> nor empty), whether the result message carries the \<^verbatim>\<open>hidden\<close> style
  (lines 168-173), and the number after \<^verbatim>\<open>Total: $\<close> (line 186), which React prints
  in the decimal notation of \<^verbatim>\<open>Number.prototype.toString\<close>.
\<close>

definition submit_button_disabled :: "state \<Rightarrow> bool" where
  "submit_button_disabled st = (processing st \<or> disabled st \<or> succeeded st)"

record view =
  submit_disabled :: bool
  submit_content :: button_text
  card_error :: "string option"
  result_hidden :: bool
  total :: number

definition render :: "nat \<Rightarrow> state \<Rightarrow> view" where
  "render numCourses st =
     \<lparr>submit_disabled = submit_button_disabled st,
      submit_content = (if processing st then Spinner else Pay_now),
      card_error = (case error st of
                      None \<Rightarrow> None
                    | Some m \<Rightarrow> if m = [] then None else Some m),
      result_hidden = (\<not> succeeded st),
      total = times_number numCourses 20\<rparr>"

subsection \<open>A session\<close>

text \<open>
  The component together with the calls of \<^verbatim>\<open>confirmCardPayment\<close> it has made:
  \<open>pending\<close> holds the calls whose promise has not resolved yet, \<open>issued\<close> every call
  made so far, oldest first.
\<close>

record world =
  ui :: state
  pending :: "confirm_call list"
  issued :: "confirm_call list"

definition initial_world :: world where
  "initial_world = \<lparr>ui = initial_state, pending = [], issued = []\<rparr>"

text \<open>
  What can happen to a mounted component:
  \<^item> \<open>Change\<close>: the card element fires \<^verbatim>\<open>onChange\<close>;
  \<^item> \<open>Click\<close>: the user activates the submit button, while the hooks return the
    given handles. The browser submits the form, and so runs \<^verbatim>\<open>onSubmit\<close>, only when
    the button is not disabled;
  \<^item> \<open>Confirm_resolved\<close>: the oldest pending \<^verbatim>\<open>confirmCardPayment\<close> resolves;
  \<^item> \<open>Intent_resolved\<close>: a \<^verbatim>\<open>fetch\<close> of the effect resolves with a body whose
    \<^verbatim>\<open>clientSecret\<close> is the given string.
\<close>

datatype event =
    Change StripeCardElementChangeEvent
  | Click "Stripe option" "Elements option"
  | Confirm_resolved payload
  | Intent_resolved string

fun step :: "world \<Rightarrow> event \<Rightarrow> world" where
  "step w (Change ev) = w\<lparr>ui := handleChange ev (ui w)\<rparr>"
| "step w (Click stripe elements) =
     (if submit_button_disabled (ui w) then w
      else
        (case handleSubmit_begin stripe elements (ui w) of
           (st, None) \<Rightarrow> w\<lparr>ui := st\<rparr>
         | (st, Some c) \<Rightarrow> \<lparr>ui = st, pending = pending w @ [c], issued = issued w @ [c]\<rparr>))"
| "step w (Confirm_resolved p) =
     (case pending w of
        [] \<Rightarrow> w
      | c # cs \<Rightarrow> w\<lparr>ui := handleSubmit_resume p (ui w), pending := cs\<rparr>)"
| "step w (Intent_resolved s) = w\<lparr>ui := setClientSecret s (ui w)\<rparr>"

definition run :: "world \<Rightarrow> event list \<Rightarrow> world" where
  "run w evs = foldl step w evs"

text \<open>
  The invariant of a session: at most one confirmation is awaited at a time, and while
  one is awaited the component is processing and has not succeeded.
\<close>

definition awaiting_ok :: "world \<Rightarrow> bool" where
  "awaiting_ok w =
     (case pending w of
        [] \<Rightarrow> True
      | c # cs \<Rightarrow> cs = [] \<and> processing (ui w) \<and> \<not> succeeded (ui w))"

text \<open>The change events among the events of a session, in order.\<close>

fun changes :: "event list \<Rightarrow> StripeCardElementChangeEvent list" where
  "changes [] = []"
| "changes (Change ev # evs) = ev # changes evs"
| "changes (Click stripe elements # evs) = changes evs"
| "changes (Confirm_resolved p # evs) = changes evs"
| "changes (Intent_resolved s # evs) = changes evs"

section \<open>Properties\<close>

subsection \<open>Auxiliary facts about sessions\<close>

lemma run_Nil: "run w [] = w"
  by (simp add: run_def)

lemma run_Cons: "run w (ev # evs) = run (step w ev) evs"
  by (simp add: run_def)

lemma run_snoc: "run w (evs @ [ev]) = step (run w evs) ev"
  by (simp add: run_def)

text \<open>Only a click on an enabled button adds a call; nothing ever removes one from the log.\<close>

lemma step_issued_guarded:
  "submit_button_disabled (ui w) \<Longrightarrow> issued (step w ev) = issued w"
  by (cases ev) (simp_all split: list.splits)



lemma awaiting_ok_initial: "awaiting_ok initial_world"
  by (simp add: awaiting_ok_def initial_world_def)

lemma awaiting_ok_step: "awaiting_ok w \<Longrightarrow> awaiting_ok (step w ev)"
proof (cases ev)
  case (Change x)
  assume "awaiting_ok w"
  with Change show ?thesis
    by (simp add: awaiting_ok_def handleChange_def split: list.splits)
next
  case (Click stripe elements)
  assume ok: "awaiting_ok w"
  show ?thesis
  proof (cases "submit_button_disabled (ui w)")
    case True
    with Click ok show ?thesis by simp
  next
    case False
    then have idle: "\<not> processing (ui w)" "\<not> succeeded (ui w)"
      by (simp_all add: submit_button_disabled_def)
    with ok have "pending w = []"
      by (simp add: awaiting_ok_def split: list.splits)
    with Click False idle show ?thesis
      by (simp add: awaiting_ok_def handleSubmit_begin_def split: option.splits)
  qed
next
  case (Confirm_resolved p)
  assume "awaiting_ok w"
  with Confirm_resolved show ?thesis
    by (simp add: awaiting_ok_def split: list.splits)
next
  case (Intent_resolved s)
  assume "awaiting_ok w"
  with Intent_resolved show ?thesis
    by (simp add: awaiting_ok_def setClientSecret_def split: list.splits)
qed

lemma awaiting_ok_run: "awaiting_ok w \<Longrightarrow> awaiting_ok (run w evs)"
  by (induction evs arbitrary: w) (simp_all add: run_Nil run_Cons awaiting_ok_step)

lemma awaiting_ok_reachable: "awaiting_ok (run initial_world evs)"
  by (rule awaiting_ok_run [OF awaiting_ok_initial])

text \<open>A component that is processing with no call awaited stays so: nothing can wake it.\<close>

lemma stuck_step:
  assumes "processing (ui w)" and "pending w = []"
  shows "processing (ui (step w ev)) \<and> pending (step w ev) = [] \<and> issued (step w ev) = issued w"
  using assms
  by (cases ev) (simp_all add: handleChange_def setClientSecret_def submit_button_disabled_def)

lemma stuck_run:
  assumes "processing (ui w)" and "pending w = []"
  shows "processing (ui (run w evs)) \<and> pending (run w evs) = [] \<and> issued (run w evs) = issued w"
  using assms
proof (induction evs arbitrary: w)
  case Nil
  then show ?case by (simp add: run_Nil)
next
  case (Cons ev evs)
  from stuck_step [OF Cons.prems, of ev] Cons.IH [of "step w ev"]
  show ?case by (simp add: run_Cons)
qed


lemma changes_snoc:
  "changes (evs @ [ev]) = (case ev of Change c \<Rightarrow> changes evs @ [c] | _ \<Rightarrow> changes evs)"
  by (induction evs rule: changes.induct) (simp_all split: event.splits)

lemma step_disabled:
  "disabled (ui (step w ev)) = (case ev of Change c \<Rightarrow> empty_ev c | _ \<Rightarrow> disabled (ui w))"
  by (cases ev)
    (simp_all add: handleChange_def handleSubmit_begin_def handleSubmit_resume_def
      setClientSecret_def split: list.splits option.splits)

lemma run_disabled:
  "disabled (ui (run w evs)) =
     (if changes evs = [] then disabled (ui w) else empty_ev (last (changes evs)))"
proof (induction evs rule: rev_induct)
  case Nil
  show ?case by (simp add: run_Nil)
next
  case (snoc ev evs)
  have "disabled (ui (run w (evs @ [ev]))) =
          (case ev of Change c \<Rightarrow> empty_ev c | _ \<Rightarrow> disabled (ui (run w evs)))"
    by (simp only: run_snoc step_disabled)
  with snoc show ?case
    by (simp add: changes_snoc split: event.splits)
qed

subsection \<open>The submission handler and its guard\<close>

text \<open>
  C1, as the claim states it, fails: the handler never looks at \<^verbatim>\<open>clientSecret\<close>. In the
  session below the user types into the card field before any intent response has arrived
  and clicks the button while both handles are present: the confirmation is called with the
  empty initial secret, and the component is processing.
\<close>

theorem confirm_without_secret_counterexample:
  "clientSecret (ui (run initial_world [Change \<lparr>empty_ev = False, error_ev = None\<rparr>])) = ''''
   \<and> issued (run initial_world
        [Change \<lparr>empty_ev = False, error_ev = None\<rparr>,
         Click (Some (Stripe 0)) (Some (Elements (Some (StripeCardElement 0))))])
       = [\<lparr>call_stripe = Stripe 0, call_secret = '''',
           call_card = Some (StripeCardElement 0)\<rparr>]
   \<and> processing (ui (run initial_world
        [Change \<lparr>empty_ev = False, error_ev = None\<rparr>,
         Click (Some (Stripe 0)) (Some (Elements (Some (StripeCardElement 0))))]))"
  by (simp add: run_def initial_world_def initial_state_def handleChange_def
      submit_button_disabled_def handleSubmit_begin_def handleSubmit_call_def)

text \<open>
  C1, amended: \<^verbatim>\<open>handleSubmit\<close> calls \<^verbatim>\<open>confirmCardPayment\<close> exactly when the
  \<^verbatim>\<open>stripe\<close> and the \<^verbatim>\<open>elements\<close> handle are both present. The stored secret is not
  checked: it is passed as it is, whatever its value, and the component is then processing.
  With either handle absent no call is made.
\<close>

theorem handleSubmit_call_gate:
  "handleSubmit_call (Some s) (Some els) st =
     Some \<lparr>call_stripe = s, call_secret = clientSecret st, call_card = getElement els\<rparr>
   \<and> handleSubmit_call None elements st = None
   \<and> handleSubmit_call stripe None st = None
   \<and> snd (handleSubmit_begin stripe elements st) = handleSubmit_call stripe elements st
   \<and> processing (fst (handleSubmit_begin (Some s) (Some els) st))"
  by (simp add: handleSubmit_call_def handleSubmit_begin_def split: option.splits)

text \<open>
  C2, as the claim states it, fails in its last part: \<^verbatim>\<open>disabled\<close> is set from the
  \<^verbatim>\<open>empty\<close> flag of the change event alone (line 61). In the session below the card
  field is not empty and the card element reports the number as incomplete; the button is
  enabled, the alert shows the message, and a click issues a confirmation call.
\<close>

theorem submit_incomplete_card_counterexample:
  "\<not> submit_disabled (render 3 (ui (run initial_world
        [Change \<lparr>empty_ev = False,
                 error_ev = Some (StripeError ''Your card number is incomplete.'')\<rparr>])))
   \<and> card_error (render 3 (ui (run initial_world
        [Change \<lparr>empty_ev = False,
                 error_ev = Some (StripeError ''Your card number is incomplete.'')\<rparr>])))
       = Some ''Your card number is incomplete.''
   \<and> issued (run initial_world
        [Change \<lparr>empty_ev = False,
                 error_ev = Some (StripeError ''Your card number is incomplete.'')\<rparr>,
         Click (Some (Stripe 0)) (Some (Elements (Some (StripeCardElement 0))))])
       = [\<lparr>call_stripe = Stripe 0, call_secret = '''',
           call_card = Some (StripeCardElement 0)\<rparr>]"
  by (simp add: run_def initial_world_def initial_state_def handleChange_def render_def
      submit_button_disabled_def handleSubmit_begin_def handleSubmit_call_def)

text \<open>
  C2, amended: while \<^verbatim>\<open>processing\<close>, \<^verbatim>\<open>disabled\<close> or \<^verbatim>\<open>succeeded\<close> is true the submit
  button is rendered disabled, a click changes nothing, and no event of any kind adds a
  confirmation call: no duplicate submission, and no submission while the card field is
  empty. After a change event that reports the field empty the button is disabled and a
  click issues no call. (Input that is not empty but incomplete does not disable the
  button.)
\<close>

theorem submit_guard:
  "(processing (ui w) \<or> disabled (ui w) \<or> succeeded (ui w) \<longrightarrow>
      submit_disabled (render n (ui w))
      \<and> step w (Click stripe elements) = w
      \<and> issued (step w ev) = issued w
      \<and> pending (step w (Click stripe elements)) = pending w)
   \<and> (empty_ev c \<longrightarrow>
      submit_disabled (render n (ui (step w (Change c))))
      \<and> step (step w (Change c)) (Click stripe elements) = step w (Change c)
      \<and> issued (step (step w (Change c)) (Click stripe elements)) = issued w)"
proof -
  have flags: "submit_disabled (render n (ui w))
      \<and> step w (Click stripe elements) = w
      \<and> issued (step w ev) = issued w
      \<and> pending (step w (Click stripe elements)) = pending w"
    if "processing (ui w) \<or> disabled (ui w) \<or> succeeded (ui w)"
  proof -
    from that have off: "submit_button_disabled (ui w)"
      by (simp add: submit_button_disabled_def)
    then have "issued (step w ev) = issued w"
      by (rule step_issued_guarded)
    with off show ?thesis
      by (simp add: render_def)
  qed
  have empty_field: "submit_disabled (render n (ui (step w (Change c))))
      \<and> step (step w (Change c)) (Click stripe elements) = step w (Change c)
      \<and> issued (step (step w (Change c)) (Click stripe elements)) = issued w"
    if "empty_ev c"
  proof -
    from that have off: "submit_button_disabled (ui (step w (Change c)))"
      by (simp add: submit_button_disabled_def handleChange_def)
    then show ?thesis
      by (simp add: render_def)
  qed
  from flags empty_field show ?thesis by blast
qed

theorem submit_guard_witness:
  "(processing (ui initial_world) \<or> disabled (ui initial_world) \<or> succeeded (ui initial_world))
   \<and> empty_ev \<lparr>empty_ev = True, error_ev = None\<rparr>
   \<and> submit_disabled (render 3 (ui initial_world))
   \<and> step initial_world
        (Click (Some (Stripe 0)) (Some (Elements (Some (StripeCardElement 0))))) = initial_world
   \<and> issued (step initial_world
        (Click (Some (Stripe 0)) (Some (Elements (Some (StripeCardElement 0)))))) = []
   \<and> issued (step (step initial_world (Change \<lparr>empty_ev = True, error_ev = None\<rparr>))
        (Click (Some (Stripe 0)) (Some (Elements (Some (StripeCardElement 0)))))) = []"
proof -
  have h: "processing (ui initial_world) \<or> disabled (ui initial_world)
           \<or> succeeded (ui initial_world)"
    by (simp add: initial_world_def initial_state_def)
  have e: "empty_ev \<lparr>empty_ev = True, error_ev = None\<rparr>"
    by simp
  have i: "issued initial_world = []"
    by (simp add: initial_world_def)
  from submit_guard [of initial_world 3 "Some (Stripe 0)"
      "Some (Elements (Some (StripeCardElement 0)))"
      "Click (Some (Stripe 0)) (Some (Elements (Some (StripeCardElement 0))))"
      "\<lparr>empty_ev = True, error_ev = None\<rparr>"]
  show ?thesis using h e i by simp
qed

text \<open>
  C6, as the claim states it, fails: a submission made while the \<^verbatim>\<open>stripe\<close> handle is
  still \<^verbatim>\<open>null\<close> runs the handler (the component is processing afterwards) and issues no
  call.
\<close>

theorem submit_without_stripe_counterexample:
  "\<not> submit_button_disabled (ui (run initial_world
        [Intent_resolved ''pi_1_secret_2'', Change \<lparr>empty_ev = False, error_ev = None\<rparr>]))
   \<and> issued (run initial_world
        [Intent_resolved ''pi_1_secret_2'', Change \<lparr>empty_ev = False, error_ev = None\<rparr>,
         Click None (Some (Elements (Some (StripeCardElement 0))))]) = []
   \<and> processing (ui (run initial_world
        [Intent_resolved ''pi_1_secret_2'', Change \<lparr>empty_ev = False, error_ev = None\<rparr>,
         Click None (Some (Elements (Some (StripeCardElement 0))))]))"
  by (simp add: run_def initial_world_def initial_state_def handleChange_def setClientSecret_def
      submit_button_disabled_def handleSubmit_begin_def handleSubmit_call_def)

text \<open>
  C6, amended: a submission made while both handles are present issues exactly one call, on
  the \<^verbatim>\<open>stripe\<close> handle, with the stored client secret and the card element that
  \<^verbatim>\<open>elements.getElement(CardElement)\<close> returns; a submission made while either handle is
  absent issues none.
\<close>

theorem submit_issues_one_call:
  "\<not> submit_button_disabled (ui w) \<Longrightarrow>
   issued (step w (Click (Some s) (Some els))) =
     issued w @ [\<lparr>call_stripe = s, call_secret = clientSecret (ui w),
                  call_card = getElement els\<rparr>]
   \<and> pending (step w (Click (Some s) (Some els))) =
     pending w @ [\<lparr>call_stripe = s, call_secret = clientSecret (ui w),
                   call_card = getElement els\<rparr>]
   \<and> issued (step w (Click None elements)) = issued w
   \<and> issued (step w (Click stripe None)) = issued w"
  by (simp add: handleSubmit_begin_def handleSubmit_call_def split: option.splits)

theorem submit_issues_one_call_witness:
  "\<not> submit_button_disabled (ui (run initial_world
        [Intent_resolved ''pi_1_secret_2'', Change \<lparr>empty_ev = False, error_ev = None\<rparr>]))
   \<and> issued (run initial_world
        [Intent_resolved ''pi_1_secret_2'', Change \<lparr>empty_ev = False, error_ev = None\<rparr>,
         Click (Some (Stripe 7)) (Some (Elements (Some (StripeCardElement 4))))])
       = [\<lparr>call_stripe = Stripe 7, call_secret = ''pi_1_secret_2'',
           call_card = Some (StripeCardElement 4)\<rparr>]"
proof -
  let ?w = "run initial_world
        [Intent_resolved ''pi_1_secret_2'', Change \<lparr>empty_ev = False, error_ev = None\<rparr>]"
  have h: "\<not> submit_button_disabled (ui ?w)"
    by (simp add: run_def initial_world_def initial_state_def handleChange_def
        setClientSecret_def submit_button_disabled_def)
  have w: "issued ?w = [] \<and> clientSecret (ui ?w) = ''pi_1_secret_2''"
    by (simp add: run_def initial_world_def initial_state_def handleChange_def
        setClientSecret_def)
  have r: "run initial_world
        [Intent_resolved ''pi_1_secret_2'', Change \<lparr>empty_ev = False, error_ev = None\<rparr>,
         Click (Some (Stripe 7)) (Some (Elements (Some (StripeCardElement 4))))]
      = step ?w (Click (Some (Stripe 7)) (Some (Elements (Some (StripeCardElement 4)))))"
    by (simp add: run_def)
  from submit_issues_one_call [OF h, of "Stripe 7" "Elements (Some (StripeCardElement 4))"]
  show ?thesis using h w unfolding r by simp
qed

subsection \<open>The outcome of a confirmation\<close>

text \<open>
  C3: when the awaited confirmation of a session resolves with an error, the component is
  left not processing and not succeeded, its error text is \<open>Payment failed\<close>, a space and
  the message of the error, and that text is what the alert shows.
\<close>

theorem confirm_error_failed:
  "pending (run initial_world evs) \<noteq> [] \<Longrightarrow>
   \<not> processing (ui (step (run initial_world evs) (Confirm_resolved (Payload (Some e)))))
   \<and> \<not> succeeded (ui (step (run initial_world evs) (Confirm_resolved (Payload (Some e)))))
   \<and> error (ui (step (run initial_world evs) (Confirm_resolved (Payload (Some e)))))
       = Some (''Payment failed '' @ message e)
   \<and> card_error (render n (ui (step (run initial_world evs)
         (Confirm_resolved (Payload (Some e))))))
       = Some (''Payment failed '' @ message e)"
proof -
  let ?w = "run initial_world evs"
  assume awaited: "pending ?w \<noteq> []"
  have "awaiting_ok ?w"
    by (rule awaiting_ok_reachable)
  with awaited have "\<not> succeeded (ui ?w)"
    by (simp add: awaiting_ok_def split: list.splits)
  with awaited show ?thesis
    by (simp add: handleSubmit_resume_def render_def split: list.splits)
qed

theorem confirm_error_failed_witness:
  "pending (run initial_world
      [Intent_resolved ''pi_1_secret_2'', Change \<lparr>empty_ev = False, error_ev = None\<rparr>,
       Click (Some (Stripe 7)) (Some (Elements (Some (StripeCardElement 4))))]) \<noteq> []
   \<and> \<not> processing (ui (run initial_world
      [Intent_resolved ''pi_1_secret_2'', Change \<lparr>empty_ev = False, error_ev = None\<rparr>,
       Click (Some (Stripe 7)) (Some (Elements (Some (StripeCardElement 4)))),
       Confirm_resolved (Payload (Some (StripeError ''card declined'')))]))
   \<and> \<not> succeeded (ui (run initial_world
      [Intent_resolved ''pi_1_secret_2'', Change \<lparr>empty_ev = False, error_ev = None\<rparr>,
       Click (Some (Stripe 7)) (Some (Elements (Some (StripeCardElement 4)))),
       Confirm_resolved (Payload (Some (StripeError ''card declined'')))]))
   \<and> card_error (render 3 (ui (run initial_world
      [Intent_resolved ''pi_1_secret_2'', Change \<lparr>empty_ev = False, error_ev = None\<rparr>,
       Click (Some (Stripe 7)) (Some (Elements (Some (StripeCardElement 4)))),
       Confirm_resolved (Payload (Some (StripeError ''card declined'')))])))
      = Some ''Payment failed card declined''"
proof -
  let ?evs = "[Intent_resolved ''pi_1_secret_2'', Change \<lparr>empty_ev = False, error_ev = None\<rparr>,
       Click (Some (Stripe 7)) (Some (Elements (Some (StripeCardElement 4))))]"
  have h: "pending (run initial_world ?evs) \<noteq> []"
    by (simp add: run_def initial_world_def initial_state_def handleChange_def
        setClientSecret_def submit_button_disabled_def handleSubmit_begin_def
        handleSubmit_call_def)
  have r: "run initial_world
      (?evs @ [Confirm_resolved (Payload (Some (StripeError ''card declined'')))])
      = step (run initial_world ?evs)
          (Confirm_resolved (Payload (Some (StripeError ''card declined''))))"
    by (rule run_snoc)
  from confirm_error_failed [OF h, of "StripeError ''card declined''" 3]
  show ?thesis using h r by simp
qed

text \<open>
  C4: when the awaited confirmation resolves without an error, the component is left
  succeeded, not processing and with its error cleared; the result message is rendered
  without the \<^verbatim>\<open>hidden\<close> style, no alert is rendered, and the button is disabled.
\<close>

theorem confirm_success_succeeded:
  "handleSubmit_resume (Payload None) st
     = st\<lparr>error := None, processing := False, succeeded := True\<rparr>
   \<and> \<not> result_hidden (render n (handleSubmit_resume (Payload None) st))
   \<and> card_error (render n (handleSubmit_resume (Payload None) st)) = None
   \<and> submit_disabled (render n (handleSubmit_resume (Payload None) st))
   \<and> (pending w \<noteq> [] \<longrightarrow>
        ui (step w (Confirm_resolved (Payload None)))
          = (ui w)\<lparr>error := None, processing := False, succeeded := True\<rparr>
        \<and> \<not> result_hidden (render n (ui (step w (Confirm_resolved (Payload None))))))"
  by (simp add: handleSubmit_resume_def render_def submit_button_disabled_def
      split: list.splits)

theorem confirm_success_succeeded_witness:
  "pending (run initial_world
      [Intent_resolved ''pi_1_secret_2'', Change \<lparr>empty_ev = False, error_ev = None\<rparr>,
       Click (Some (Stripe 7)) (Some (Elements (Some (StripeCardElement 4))))]) \<noteq> []
   \<and> ui (run initial_world
      [Intent_resolved ''pi_1_secret_2'', Change \<lparr>empty_ev = False, error_ev = None\<rparr>,
       Click (Some (Stripe 7)) (Some (Elements (Some (StripeCardElement 4)))),
       Confirm_resolved (Payload None)])
     = \<lparr>succeeded = True, error = None, processing = False, disabled = False,
        clientSecret = ''pi_1_secret_2''\<rparr>
   \<and> \<not> result_hidden (render 3 (ui (run initial_world
      [Intent_resolved ''pi_1_secret_2'', Change \<lparr>empty_ev = False, error_ev = None\<rparr>,
       Click (Some (Stripe 7)) (Some (Elements (Some (StripeCardElement 4)))),
       Confirm_resolved (Payload None)])))"
proof -
  let ?evs = "[Intent_resolved ''pi_1_secret_2'', Change \<lparr>empty_ev = False, error_ev = None\<rparr>,
       Click (Some (Stripe 7)) (Some (Elements (Some (StripeCardElement 4))))]"
  have h: "pending (run initial_world ?evs) \<noteq> []"
    by (simp add: run_def initial_world_def initial_state_def handleChange_def
        setClientSecret_def submit_button_disabled_def handleSubmit_begin_def
        handleSubmit_call_def)
  have u: "ui (run initial_world ?evs)
      = \<lparr>succeeded = False, error = Some '''', processing = True, disabled = False,
         clientSecret = ''pi_1_secret_2''\<rparr>"
    by (simp add: run_def initial_world_def initial_state_def handleChange_def
        setClientSecret_def submit_button_disabled_def handleSubmit_begin_def
        handleSubmit_call_def)
  have r: "run initial_world (?evs @ [Confirm_resolved (Payload None)])
      = step (run initial_world ?evs) (Confirm_resolved (Payload None))"
    by (rule run_snoc)
  from confirm_success_succeeded [of "ui (run initial_world ?evs)" 3 "run initial_world ?evs"]
  show ?thesis using h r by (simp add: u render_def)
qed

subsection \<open>Validation events\<close>

text \<open>
  C5: after a change event the \<^verbatim>\<open>disabled\<close> cell is the \<^verbatim>\<open>empty\<close> flag of that event
  and the error text is the message of its error, or the empty string when it has none.
  Through a whole session, whatever else happens in between, \<^verbatim>\<open>disabled\<close> is the
  \<^verbatim>\<open>empty\<close> flag of the most recent change event (and its starting value before the
  first one).
\<close>

theorem handleChange_latest:
  "disabled (ui (run w (evs @ [Change ev]))) = empty_ev ev
   \<and> error (ui (run w (evs @ [Change ev])))
       = Some (case error_ev ev of Some e \<Rightarrow> message e | None \<Rightarrow> '''')
   \<and> disabled (ui (run w evs))
       = (if changes evs = [] then disabled (ui w) else empty_ev (last (changes evs)))"
proof -
  have "ui (run w (evs @ [Change ev])) = handleChange ev (ui (run w evs))"
    by (simp add: run_snoc)
  then have "disabled (ui (run w (evs @ [Change ev]))) = empty_ev ev"
    and "error (ui (run w (evs @ [Change ev])))
       = Some (case error_ev ev of Some e \<Rightarrow> message e | None \<Rightarrow> '''')"
    by (simp_all add: handleChange_def)
  then show ?thesis
    using run_disabled [of w evs] by simp
qed

theorem handleChange_latest_witness:
  "changes [Change \<lparr>empty_ev = False, error_ev = None\<rparr>,
            Click None None,
            Change \<lparr>empty_ev = True, error_ev = Some (StripeError ''Your card number is incomplete.'')\<rparr>,
            Intent_resolved ''pi_1_secret_2''] \<noteq> []
   \<and> disabled (ui (run initial_world
        [Change \<lparr>empty_ev = False, error_ev = None\<rparr>,
         Click None None,
         Change \<lparr>empty_ev = True, error_ev = Some (StripeError ''Your card number is incomplete.'')\<rparr>,
         Intent_resolved ''pi_1_secret_2'']))
   \<and> error (ui (run initial_world
        ([Change \<lparr>empty_ev = False, error_ev = None\<rparr>, Click None None]
         @ [Change \<lparr>empty_ev = True,
                    error_ev = Some (StripeError ''Your card number is incomplete.'')\<rparr>])))
       = Some ''Your card number is incomplete.''"
  using handleChange_latest [of initial_world
      "[Change \<lparr>empty_ev = False, error_ev = None\<rparr>, Click None None,
        Change \<lparr>empty_ev = True, error_ev = Some (StripeError ''Your card number is incomplete.'')\<rparr>,
        Intent_resolved ''pi_1_secret_2'']"]
    handleChange_latest [of initial_world
      "[Change \<lparr>empty_ev = False, error_ev = None\<rparr>, Click None None]"
      "\<lparr>empty_ev = True, error_ev = Some (StripeError ''Your card number is incomplete.'')\<rparr>"]
  by simp

subsection \<open>After success or failure\<close>




subsection \<open>The total and the intent request\<close>

text \<open>
  C8, as the claim states it, fails: \<^verbatim>\<open>numCourses * 20\<close> is a product of doubles. For
  \<^verbatim>\<open>numCourses\<close> = \<open>2^53 - 1\<close>, the largest safe integer, the exact product
  180143985094819820 has 58 bits and is not a multiple of 32; the component renders the
  double 180143985094819808 (printed as 180143985094819800).
\<close>

theorem total_unsafe_counterexample:
  "total (render 9007199254740991 initial_state) = Num 180143985094819808
   \<and> total (render 9007199254740991 initial_state) \<noteq> Num (9007199254740991 * 20)"
proof -
  have len: "bit_length 180143985094819820 = 58"
    by (simp add: bit_length.simps)
  have "round_double 180143985094819820 = Num 180143985094819808"
    by (simp add: round_double_def len Let_def)
  then show ?thesis
    by (simp add: render_def times_number_def)
qed

text \<open>
  C8, amended: for every non-negative integer \<^verbatim>\<open>numCourses\<close> whose product with 20 is
  below \<open>2^53\<close>, and in every state, the number rendered after \<^verbatim>\<open>Total: $\<close> is
  \<^verbatim>\<open>numCourses * 20\<close>.
\<close>

theorem total_rendered:
  "numCourses * 20 < 2 ^ 53 \<Longrightarrow> total (render numCourses st) = Num (numCourses * 20)"
  by (simp add: render_def times_number_def round_double_def)

theorem total_rendered_witness:
  "(3::nat) * 20 < 2 ^ 53 \<and> total (render 3 initial_state) = Num 60"
proof -
  have h: "(3::nat) * 20 < 2 ^ 53" by simp
  from total_rendered [OF h, of initial_state] show ?thesis using h by simp
qed

text \<open>
  C9: the effect builds its request for every \<^verbatim>\<open>numCourses\<close> that \<^verbatim>\<open>Array\<close> accepts
  as a length, and every request it builds is a \<^verbatim>\<open>POST\<close> to the fixed address ending in
  \<^verbatim>\<open>/payment/create-payment-intent\<close>, whose body holds under \<^verbatim>\<open>coursesToBuy\<close> an
  array of exactly \<^verbatim>\<open>numCourses\<close> entries, each the object \<^verbatim>\<open>{id: "course"}\<close>, and
  under \<^verbatim>\<open>price\<close> the number 2599. When the response arrives its \<^verbatim>\<open>clientSecret\<close> is
  stored as it is.
\<close>

theorem intent_request_shape:
  "(numCourses < 2 ^ 32 \<longrightarrow>
      create_payment_intent_request numCourses =
        Inr \<lparr>url = ''https://localhost:5001/payment/create-payment-intent'',
             http_method = ''POST'',
             headers = [(''Content-Type'', ''application/json'')],
             body = JObject
               [(''coursesToBuy'',
                 JArray (replicate numCourses (JObject [(''id'', JString ''course'')]))),
                (''price'', JNumber 2599)]\<rparr>)
   \<and> (create_payment_intent_request numCourses = Inr r \<longrightarrow>
      http_method r = ''POST''
      \<and> url r = ''https://localhost:5001'' @ ''/payment/create-payment-intent''
      \<and> (\<exists>cs. body r = JObject [(''coursesToBuy'', JArray cs), (''price'', JNumber 2599)]
            \<and> length cs = numCourses
            \<and> (\<forall>c \<in> set cs. c = JObject [(''id'', JString ''course'')])))
   \<and> clientSecret (setClientSecret s st) = s
   \<and> clientSecret (ui (step w (Intent_resolved s))) = s"
proof -
  have built: "create_payment_intent_request numCourses =
        Inr \<lparr>url = ''https://localhost:5001/payment/create-payment-intent'',
             http_method = ''POST'',
             headers = [(''Content-Type'', ''application/json'')],
             body = JObject
               [(''coursesToBuy'',
                 JArray (replicate numCourses (JObject [(''id'', JString ''course'')]))),
                (''price'', JNumber 2599)]\<rparr>" if "numCourses < 2 ^ 32"
    using that by (simp add: create_payment_intent_request_def Array_fill_def)
  have sent: "http_method r = ''POST''
      \<and> url r = ''https://localhost:5001'' @ ''/payment/create-payment-intent''
      \<and> (\<exists>cs. body r = JObject [(''coursesToBuy'', JArray cs), (''price'', JNumber 2599)]
            \<and> length cs = numCourses
            \<and> (\<forall>c \<in> set cs. c = JObject [(''id'', JString ''course'')]))"
    if req: "create_payment_intent_request numCourses = Inr r"
  proof -
    from req have small: "numCourses < 2 ^ 32"
      by (simp add: create_payment_intent_request_def Array_fill_def split: if_splits)
    from built [OF small] req have r: "r =
        \<lparr>url = ''https://localhost:5001/payment/create-payment-intent'',
         http_method = ''POST'',
         headers = [(''Content-Type'', ''application/json'')],
         body = JObject
           [(''coursesToBuy'',
             JArray (replicate numCourses (JObject [(''id'', JString ''course'')]))),
            (''price'', JNumber 2599)]\<rparr>"
      by simp
    show ?thesis
      unfolding r by simp
  qed
  have stored: "clientSecret (setClientSecret s st) = s"
    "clientSecret (ui (step w (Intent_resolved s))) = s"
    by (simp_all add: setClientSecret_def)
  from built sent stored show ?thesis by blast
qed

theorem intent_request_shape_witness:
  "(3::nat) < 2 ^ 32
   \<and> create_payment_intent_request 3 =
        Inr \<lparr>url = ''https://localhost:5001/payment/create-payment-intent'',
             http_method = ''POST'',
             headers = [(''Content-Type'', ''application/json'')],
             body = JObject
               [(''coursesToBuy'',
                 JArray [JObject [(''id'', JString ''course'')],
                         JObject [(''id'', JString ''course'')],
                         JObject [(''id'', JString ''course'')]]),
                (''price'', JNumber 2599)]\<rparr>
   \<and> clientSecret (ui (step initial_world (Intent_resolved ''pi_1_secret_2'')))
       = ''pi_1_secret_2''"
proof -
  have h: "(3::nat) < 2 ^ 32" by simp
  have three: "replicate 3 (JObject [(''id'', JString ''course'')]) =
      [JObject [(''id'', JString ''course'')], JObject [(''id'', JString ''course'')],
       JObject [(''id'', JString ''course'')]]"
    by (simp add: numeral_3_eq_3)
  from intent_request_shape [of 3 _ "''pi_1_secret_2''" _ initial_world]
  show ?thesis using h by (simp add: three)
qed

subsection \<open>A submission without the handles\<close>

text \<open>
  C10: \<^verbatim>\<open>handleSubmit\<close> sets \<^verbatim>\<open>processing\<close> before it looks at the handles. When, in a
  session, the button is enabled and a submission happens while the \<^verbatim>\<open>stripe\<close> or the
  \<^verbatim>\<open>elements\<close> handle is \<^verbatim>\<open>null\<close>, no confirmation call is made, and through every
  continuation of the session \<^verbatim>\<open>processing\<close> stays true, the spinner is shown, the
  button is disabled and no confirmation call is ever made.
\<close>

theorem submit_without_handles_stuck:
  "\<not> submit_button_disabled (ui (run initial_world evs)) \<Longrightarrow>
   stripe = None \<or> elements = None \<Longrightarrow>
   fst (handleSubmit_begin stripe elements st) = st\<lparr>processing := True\<rparr>
   \<and> snd (handleSubmit_begin stripe elements st) = None
   \<and> processing (ui (step (run initial_world evs) (Click stripe elements)))
   \<and> issued (step (run initial_world evs) (Click stripe elements))
       = issued (run initial_world evs)
   \<and> processing (ui (run (step (run initial_world evs) (Click stripe elements)) evs'))
   \<and> submit_content
        (render n (ui (run (step (run initial_world evs) (Click stripe elements)) evs')))
       = Spinner
   \<and> submit_disabled
        (render n (ui (run (step (run initial_world evs) (Click stripe elements)) evs')))
   \<and> issued (run (step (run initial_world evs) (Click stripe elements)) evs')
       = issued (run initial_world evs)"
proof -
  let ?w = "run initial_world evs"
  let ?w' = "step ?w (Click stripe elements)"
  assume enabled: "\<not> submit_button_disabled (ui ?w)"
  assume absent: "stripe = None \<or> elements = None"
  from absent have nocall: "handleSubmit_call stripe elements st = None" for st
    by (auto simp add: handleSubmit_call_def split: option.splits)
  from enabled have "\<not> processing (ui ?w)"
    by (simp add: submit_button_disabled_def)
  moreover have "awaiting_ok ?w"
    by (rule awaiting_ok_reachable)
  ultimately have idle: "pending ?w = []"
    by (simp add: awaiting_ok_def split: list.splits)
  from enabled nocall idle
  have now: "processing (ui ?w')" "pending ?w' = []" "issued ?w' = issued ?w"
    by (simp_all add: handleSubmit_begin_def)
  from stuck_run [OF now(1) now(2), of evs'] now(3)
  have later: "processing (ui (run ?w' evs'))" "issued (run ?w' evs') = issued ?w"
    by simp_all
  from later(1) have shown: "submit_content (render n (ui (run ?w' evs'))) = Spinner"
    "submit_disabled (render n (ui (run ?w' evs')))"
    by (simp_all add: render_def submit_button_disabled_def)
  have first: "fst (handleSubmit_begin stripe elements st) = st\<lparr>processing := True\<rparr>"
    "snd (handleSubmit_begin stripe elements st) = None"
    by (simp_all add: handleSubmit_begin_def nocall)
  from first now(1) now(3) later shown show ?thesis
    by simp
qed

theorem submit_without_handles_stuck_witness:
  "\<not> submit_button_disabled
       (ui (run initial_world [Change \<lparr>empty_ev = False, error_ev = None\<rparr>]))
   \<and> processing (ui (run
        (step (run initial_world [Change \<lparr>empty_ev = False, error_ev = None\<rparr>])
           (Click None (Some (Elements (Some (StripeCardElement 4))))))
        [Intent_resolved ''pi_1_secret_2'',
         Change \<lparr>empty_ev = False, error_ev = None\<rparr>,
         Click (Some (Stripe 7)) (Some (Elements (Some (StripeCardElement 4)))),
         Confirm_resolved (Payload None)]))
   \<and> issued (run
        (step (run initial_world [Change \<lparr>empty_ev = False, error_ev = None\<rparr>])
           (Click None (Some (Elements (Some (StripeCardElement 4))))))
        [Intent_resolved ''pi_1_secret_2'',
         Change \<lparr>empty_ev = False, error_ev = None\<rparr>,
         Click (Some (Stripe 7)) (Some (Elements (Some (StripeCardElement 4)))),
         Confirm_resolved (Payload None)]) = []"
proof -
  have h: "\<not> submit_button_disabled
       (ui (run initial_world [Change \<lparr>empty_ev = False, error_ev = None\<rparr>]))"
    by (simp add: run_def initial_world_def initial_state_def handleChange_def
        submit_button_disabled_def)
  have i: "issued (run initial_world [Change \<lparr>empty_ev = False, error_ev = None\<rparr>]) = []"
    by (simp add: run_def initial_world_def)
  have a: "(None :: Stripe option) = None
      \<or> Some (Elements (Some (StripeCardElement 4))) = None"
    by simp
  from submit_without_handles_stuck [OF h a, of _
      "[Intent_resolved ''pi_1_secret_2'',
        Change \<lparr>empty_ev = False, error_ev = None\<rparr>,
        Click (Some (Stripe 7)) (Some (Elements (Some (StripeCardElement 4)))),
        Confirm_resolved (Payload None)]" 3]
  show ?thesis using h i by simp
qed

end
